theory Spec2Isabelle
  imports Main "HOL-Library.Word"
begin

unbundle bit_operations_syntax

section \<open>The tunnel device (src/ipv6-tunnel.cpp)\<close>

subsection \<open>Data model and kernel interface\<close>

type_synonym byte = "8 word"

text \<open>
  The members of \<open>IPv6Tunnel\<close> that the methods of ipv6-tunnel.cpp touch: the device
  descriptor \<open>fd\<close> (\<open>-1\<close> when the open failed), the interface name, and the read
  buffer \<open>pbuf\<close> with its fill length \<open>plen\<close>. The size of the buffer is
  \<open>sizeof (pbuf)\<close>, here the length of the list.
\<close>

record tunnel =
  fd :: int
  ifname :: string
  pbuf :: "byte list"
  plen :: int

datatype ioctl_req =
  TUNSETIFF | SIOCGIFFLAGS | SIOCSIFFLAGS | SIOCGIFINDEX | SIOCSIFADDR | SIOCSIFMTU

text \<open>The argument handed to an ioctl: the fields of the request that the code fills in.\<close>

datatype ioctl_arg =
    Ifr_name string
  | Ifr_flags string "16 word"
  | Ifr_mtu string int
  | Ifr6 int "128 word" int

datatype priority = LOG_ERR | LOG_INFO | LOG_DEBUG

text \<open>The messages that ipv6-tunnel.cpp hands to syslog, with their arguments.\<close>

datatype log_msg =
    IPv6_stack_not_available
  | Tunnel_error ioctl_req
  | Prefix_length_too_long int
  | MTU_too_small int
  | MTU_too_big int
  | Tunnel_address_set
  | Tunnel_MTU_set int
  | Cannot_send_packet
  | Packet_truncated nat

text \<open>Every call that leaves the process, in program order.\<close>

datatype syscall =
    Socket
  | Ioctl int ioctl_req ioctl_arg
  | Close int
  | Read int nat
  | Write int "byte list"
  | Syslog priority log_msg

datatype read_result = Read_error | Read_data "byte list"

text \<open>
  What the operating system answers during one method call: the value of \<open>socket\<close>,
  the value each ioctl returns, the interface flags and index the kernel reports, the
  outcome of \<open>read\<close> and the value of \<open>write\<close>. \<open>words_bigendian\<close> is the
  compile-time macro \<open>WORDS_BIGENDIAN\<close>.
\<close>

record kernel =
  words_bigendian :: bool
  socket_ret :: int
  ioctl_ret :: "ioctl_req \<Rightarrow> int"
  if_flags :: "16 word"
  if_index :: int
  read_ret :: read_result
  write_ret :: int

subsection \<open>Constants of the platform headers\<close>

text \<open>\<open>IFNAMSIZ\<close> and the interface flags of Linux' \<open>net/if.h\<close>.\<close>

definition IFNAMSIZ :: nat where "IFNAMSIZ = 16"

definition IFF_UP :: "16 word" where "IFF_UP = 0x1"
definition IFF_BROADCAST :: "16 word" where "IFF_BROADCAST = 0x2"
definition IFF_POINTOPOINT :: "16 word" where "IFF_POINTOPOINT = 0x10"
definition IFF_RUNNING :: "16 word" where "IFF_RUNNING = 0x40"
definition IFF_NOARP :: "16 word" where "IFF_NOARP = 0x80"
definition IFF_MULTICAST :: "16 word" where "IFF_MULTICAST = 0x1000"

text \<open>Lines 51-55: the ethertype of IPv6 as a 16-bit value in the byte order of the host.\<close>

definition L2_PROTO_IPV6 :: "bool \<Rightarrow> 16 word" where
  "L2_PROTO_IPV6 be = (if be then 0x86dd else 0xdd86)"

text \<open>
  \<open>memcpy\<close> of a \<open>uint16_t\<close> to and from two octets of memory, on a big-endian and on
  a little-endian host.
\<close>

definition store16 :: "bool \<Rightarrow> 16 word \<Rightarrow> byte list" where
  "store16 be w =
     (if be then [ucast (drop_bit 8 w), ucast w] else [ucast w, ucast (drop_bit 8 w)])"

definition load16 :: "bool \<Rightarrow> byte \<Rightarrow> byte \<Rightarrow> 16 word" where
  "load16 be b0 b1 =
     (if be then push_bit 8 (ucast b0) OR ucast b1 else push_bit 8 (ucast b1) OR ucast b0)"

subsection \<open>Helpers\<close>

text \<open>Lines 57-64.\<close>

definition socket_udp6 :: "kernel \<Rightarrow> int \<times> syscall list" where
  "socket_udp6 k =
     (let fd' = socket_ret k
      in if fd' = -1 then (fd', [Socket, Syslog LOG_ERR IPv6_stack_not_available])
         else (fd', [Socket]))"

text \<open>
  Lines 67-72: \<open>strncpy\<close> followed by a terminating NUL in the last cell; the C string
  left in the target is the source cut to \<open>len - 1\<close> characters.
\<close>

definition secure_strncpy :: "string \<Rightarrow> nat \<Rightarrow> string" where
  "secure_strncpy src len = take (len - 1) src"

subsection \<open>Configuration methods\<close>

text \<open>Lines 141-147: the flags written back, computed from the flags read.\<close>

definition wanted_flags :: "bool \<Rightarrow> 16 word \<Rightarrow> 16 word" where
  "wanted_flags up f0 =
     (let f1 = f0 OR (IFF_POINTOPOINT OR IFF_NOARP);
          f2 = (if up then f1 OR (IFF_UP OR IFF_RUNNING) else f1 AND NOT IFF_UP)
      in f2 AND NOT (IFF_MULTICAST OR IFF_BROADCAST))"

text \<open>Lines 119-159.\<close>

definition SetState :: "bool \<Rightarrow> tunnel \<Rightarrow> kernel \<Rightarrow> int \<times> syscall list" where
  "SetState up t k =
     (if fd t = -1 then (-1, [])
      else
        let (reqfd, tr) = socket_udp6 k
        in if reqfd = -1 then (-1, tr)
           else
             let name = secure_strncpy (ifname t) IFNAMSIZ;
                 get = Ioctl reqfd SIOCGIFFLAGS (Ifr_name name)
             in if ioctl_ret k SIOCGIFFLAGS \<noteq> 0
                then (-1, tr @ [get, Syslog LOG_ERR (Tunnel_error SIOCGIFFLAGS), Close reqfd])
                else
                  let put = Ioctl reqfd SIOCSIFFLAGS
                              (Ifr_flags name (wanted_flags up (if_flags k)))
                  in if ioctl_ret k SIOCSIFFLAGS \<noteq> 0
                     then (-1, tr @ [get, put, Syslog LOG_ERR (Tunnel_error SIOCSIFFLAGS),
                                     Close reqfd])
                     else (0, tr @ [get, put, Close reqfd]))"

text \<open>Lines 162-204.\<close>

definition SetAddress :: "128 word \<Rightarrow> int \<Rightarrow> tunnel \<Rightarrow> kernel \<Rightarrow> int \<times> syscall list" where
  "SetAddress addr prefix_len t k =
     (if fd t = -1 \<or> prefix_len < 0 then (-1, [])
      else if prefix_len > 128
      then (-1, [Syslog LOG_ERR (Prefix_length_too_long prefix_len)])
      else
        let (reqfd, tr) = socket_udp6 k
        in if reqfd = -1 then (-1, tr)
           else
             let name = secure_strncpy (ifname t) IFNAMSIZ;
                 idx = Ioctl reqfd SIOCGIFINDEX (Ifr_name name)
             in if ioctl_ret k SIOCGIFINDEX = 0
                then
                  let set = Ioctl reqfd SIOCSIFADDR (Ifr6 (if_index k) addr prefix_len)
                  in if ioctl_ret k SIOCSIFADDR = 0
                     then (0, tr @ [idx, set, Syslog LOG_DEBUG Tunnel_address_set, Close reqfd])
                     else (-1, tr @ [idx, set, Close reqfd])
                else (-1, tr @ [idx, Close reqfd]))"

text \<open>Lines 207-242. The control socket is not closed on the successful path.\<close>

definition SetMTU :: "int \<Rightarrow> tunnel \<Rightarrow> kernel \<Rightarrow> int \<times> syscall list" where
  "SetMTU mtu t k =
     (if fd t = -1 then (-1, [])
      else if mtu < 1280 then (-1, [Syslog LOG_ERR (MTU_too_small mtu)])
      else if mtu > 65535 then (-1, [Syslog LOG_ERR (MTU_too_big mtu)])
      else
        let (reqfd, tr) = socket_udp6 k
        in if reqfd = -1 then (-1, tr)
           else
             let name = secure_strncpy (ifname t) IFNAMSIZ;
                 set = Ioctl reqfd SIOCSIFMTU (Ifr_mtu name mtu)
             in if ioctl_ret k SIOCSIFMTU \<noteq> 0
                then (-1, tr @ [set, Syslog LOG_ERR (Tunnel_error SIOCSIFMTU), Close reqfd])
                else (0, tr @ [set, Syslog LOG_DEBUG (Tunnel_MTU_set mtu)]))"

subsection \<open>Packet input and output\<close>

text \<open>Lines 247-253: \<open>fd_set\<close> as a set of descriptors.\<close>

definition RegisterReadSet :: "int set \<Rightarrow> tunnel \<Rightarrow> int \<times> int set" where
  "RegisterReadSet readset t =
     (if fd t \<noteq> -1 then (fd t, insert (fd t) readset) else (fd t, readset))"

text \<open>
  Lines 256-274. \<open>read\<close> transfers at most \<open>sizeof (pbuf)\<close> octets to the front of the
  buffer and leaves the rest of the buffer as it was; the protocol field is then taken
  from offsets 2 and 3 of the buffer whatever the length read. The buffer is an array
  with room for the header, so these two offsets lie inside it.
\<close>

definition ReceivePacket :: "int set \<Rightarrow> tunnel \<Rightarrow> kernel \<Rightarrow> (int \<times> syscall list) \<times> tunnel" where
  "ReceivePacket readset t k =
     (if fd t = -1 \<or> fd t \<notin> readset then ((-1, []), t)
      else
        let rd = Read (fd t) (length (pbuf t))
        in case read_ret k of
             Read_error \<Rightarrow> ((-1, [rd]), t)
           | Read_data bytes \<Rightarrow>
               let got = take (length (pbuf t)) bytes;
                   buf = got @ drop (length got) (pbuf t);
                   t' = t\<lparr>pbuf := buf, plen := int (length got)\<rparr>;
                   proto = load16 (words_bigendian k) (buf ! 2) (buf ! 3)
               in if proto \<noteq> L2_PROTO_IPV6 (words_bigendian k) then ((-1, [rd]), t')
                  else ((0, [rd]), t'))"

text \<open>The conversion \<open>(int)len\<close> of a \<open>size_t\<close>: the low 32 bits, read as two's complement.\<close>

definition int_of_size :: "nat \<Rightarrow> int" where
  "int_of_size n =
     (let m = int n mod 2 ^ 32 in if m < 2 ^ 31 then m else m - 2 ^ 32)"

text \<open>
  Lines 277-301. After \<open>len += 4\<close> the value of \<open>write\<close> is compared with
  \<open>(int)len\<close>; the choice between the two messages tests \<open>(int)len\<close> as well.
\<close>

definition SendPacket :: "byte list \<Rightarrow> tunnel \<Rightarrow> kernel \<Rightarrow> int \<times> syscall list" where
  "SendPacket packet t k =
     (if fd t \<noteq> -1 \<and> length packet \<le> 65535
      then
        let buf = store16 (words_bigendian k) 0
                  @ store16 (words_bigendian k) (L2_PROTO_IPV6 (words_bigendian k))
                  @ packet;
            len = length packet + 4;
            wr = Write (fd t) (take len buf)
        in if write_ret k = int_of_size len then (0, [wr])
           else if int_of_size len = -1
           then (-1, [wr, Syslog LOG_ERR Cannot_send_packet])
           else (-1, [wr, Syslog LOG_ERR (Packet_truncated len)])
      else (-1, []))"

text \<open>The writes in a list of system calls: descriptor and octets, in order.\<close>

fun writes :: "syscall list \<Rightarrow> (int \<times> byte list) list" where
  "writes [] = []"
| "writes (Write d bs # cs) = (d, bs) # writes cs"
| "writes (c # cs) = writes cs"

text \<open>A kernel in which every ioctl returns the same value.\<close>

definition all_ioctls :: "int \<Rightarrow> ioctl_req \<Rightarrow> int" where
  "all_ioctls r req = r"

text \<open>
  A tunnel and a kernel to evaluate the methods on: descriptor 3, interface
  \<open>teredo\<close>, a little-endian host on which every call succeeds, and an interface that
  is up and running. Modelled from the spec: the read buffer, declared in
  \<open>ipv6-tunnel.h\<close>, holds one IPv6 packet of the largest size and the frame header of 4
  octets; here it holds the header of an IPv6 frame received before.
\<close>

definition sample_tunnel :: tunnel where
  "sample_tunnel =
     \<lparr>fd = 3, ifname = ''teredo'', pbuf = [0, 0, 0x86, 0xdd] @ replicate 65535 0, plen = 44\<rparr>"

definition sample_kernel :: kernel where
  "sample_kernel =
     \<lparr>words_bigendian = False, socket_ret = 4, ioctl_ret = all_ioctls 0,
      if_flags = IFF_UP OR IFF_RUNNING, if_index = 2, read_ret = Read_error, write_ret = -1\<rparr>"

section \<open>The supervisor and the event loop (src/miredo.cpp)\<close>

subsection \<open>Signal handlers and the signal bridge\<close>

text \<open>
  Lines 88-95: the process-wide variables \<open>should_exit\<close>, \<open>should_reload\<close> and the two
  ends of the pipe, \<open>signalfd[0]\<close> (read end) and \<open>signalfd[1]\<close> (write end).
\<close>

record globals =
  should_exit :: int
  should_reload :: int
  signalfd0 :: int
  signalfd1 :: int

text \<open>The signals whose disposition \<open>InitSignals\<close> changes, with Linux' numbers.\<close>

datatype signal = SIGHUP | SIGINT | SIGQUIT | SIGTERM | SIGPIPE | SIGUSR1 | SIGUSR2

fun signo :: "signal \<Rightarrow> int" where
  "signo SIGHUP = 1"
| "signo SIGINT = 2"
| "signo SIGQUIT = 3"
| "signo SIGTERM = 15"
| "signo SIGPIPE = 13"
| "signo SIGUSR1 = 10"
| "signo SIGUSR2 = 12"

text \<open>A write of a signal number to the bridge: the descriptor and the number written.\<close>

type_synonym bridge_write = "int \<times> int"

text \<open>
  The handlers are entered at any moment, also while another handler runs, so they are
  modelled one statement at a time. The three places of a handler: the test (line 100,
  111), the \<open>write\<close> (line 103, 114) and the assignment (line 104, 115).
\<close>

datatype pc = At_test | At_write | At_assign

text \<open>
  Lines 97-105, the statement at \<open>pc\<close>: the variables after it, what it writes to the
  bridge, and the place of the next statement (\<open>None\<close> when the handler returns).
\<close>

definition exit_handler :: "int \<Rightarrow> pc \<Rightarrow> globals \<Rightarrow> globals \<times> bridge_write list \<times> pc option" where
  "exit_handler signum pc g =
     (case pc of
        At_test \<Rightarrow>
          if should_exit g \<noteq> 0 \<or> signalfd1 g = -1 then (g, [], None)
          else (g, [], Some At_write)
      | At_write \<Rightarrow> (g, [(signalfd1 g, signum)], Some At_assign)
      | At_assign \<Rightarrow> (g\<lparr>should_exit := signum\<rparr>, [], None))"

text \<open>Lines 108-116, in the same way.\<close>

definition reload_handler :: "int \<Rightarrow> pc \<Rightarrow> globals \<Rightarrow> globals \<times> bridge_write list \<times> pc option" where
  "reload_handler signum pc g =
     (case pc of
        At_test \<Rightarrow>
          if should_reload g \<noteq> 0 \<or> signalfd1 g = -1 then (g, [], None)
          else (g, [], Some At_write)
      | At_write \<Rightarrow> (g, [(signalfd1 g, signum)], Some At_assign)
      | At_assign \<Rightarrow> (g\<lparr>should_reload := signum\<rparr>, [], None))"

text \<open>
  Lines 435-467. The argument is the outcome of \<open>pipe\<close>: \<open>None\<close> when it fails, the
  two descriptors otherwise. When \<open>pipe\<close> fails the function returns before it touches
  the variables.
\<close>

definition InitSignals :: "(int \<times> int) option \<Rightarrow> globals \<Rightarrow> bool \<times> globals" where
  "InitSignals p g =
     (case p of
        None \<Rightarrow> (False, g)
      | Some (r, w) \<Rightarrow>
          (True, g\<lparr>signalfd0 := r, signalfd1 := w, should_exit := 0, should_reload := 0\<rparr>))"

text \<open>
  The dispositions that lines 451-464 install: \<open>exit_handler\<close> for INT, QUIT and
  TERM, \<open>reload_handler\<close> for HUP, and \<open>SIG_IGN\<close> for PIPE, USR1 and USR2.
\<close>

datatype disposition = Catch_exit | Catch_reload | SIG_IGN

fun installed :: "signal \<Rightarrow> disposition" where
  "installed SIGINT = Catch_exit"
| "installed SIGQUIT = Catch_exit"
| "installed SIGTERM = Catch_exit"
| "installed SIGHUP = Catch_reload"
| "installed SIGPIPE = SIG_IGN"
| "installed SIGUSR1 = SIG_IGN"
| "installed SIGUSR2 = SIG_IGN"

text \<open>
  The supervisor while signals arrive: its variables, what has been written to the
  bridge, the handlers that have been entered and have not returned (innermost first,
  each with the place of its next statement), and the signals that are pending.
\<close>

record process =
  vars :: globals
  written :: "bridge_write list"
  stack :: "(signal \<times> pc) list"
  pending :: "signal list"

text \<open>
  Lines 448-449 and 451-464: the handlers are installed with an empty \<open>sa_mask\<close> and
  without \<open>SA_NODEFER\<close>. While a handler runs, the signal it handles is blocked and
  no other signal is.
\<close>

definition blocked :: "process \<Rightarrow> signal \<Rightarrow> bool" where
  "blocked p x = (x \<in> set (map fst (stack p)))"

definition invoke :: "signal \<Rightarrow> process \<Rightarrow> process" where
  "invoke x p = p\<lparr>stack := (x, At_test) # stack p\<rparr>"

text \<open>
  A signal arrives: an ignored signal is discarded, a blocked signal becomes pending
  (once, however often it arrives), any other signal enters its handler at once, on top
  of the handler that runs.
\<close>

definition arrive :: "signal \<Rightarrow> process \<Rightarrow> process" where
  "arrive x p =
     (if installed x = SIG_IGN then p
      else if blocked p x then p\<lparr>pending := List.insert x (pending p)\<rparr>
      else invoke x p)"

text \<open>The handler of \<open>x\<close> has returned: \<open>x\<close> is unblocked, and delivered when pending.\<close>

definition sigreturn :: "signal \<Rightarrow> process \<Rightarrow> process" where
  "sigreturn x p =
     (if x \<in> set (pending p) then invoke x (p\<lparr>pending := removeAll x (pending p)\<rparr>) else p)"

text \<open>The statement at \<open>pc\<close> of the handler installed for the signal \<open>x\<close>.\<close>

definition statement :: "signal \<Rightarrow> pc \<Rightarrow> globals \<Rightarrow> globals \<times> bridge_write list \<times> pc option" where
  "statement x pc g =
     (case installed x of
        Catch_exit \<Rightarrow> exit_handler (signo x) pc g
      | Catch_reload \<Rightarrow> reload_handler (signo x) pc g
      | SIG_IGN \<Rightarrow> (g, [], None))"

text \<open>
  The innermost handler executes its next statement. When no handler runs, a pending
  signal is delivered, and without one nothing happens here.
\<close>

definition step :: "process \<Rightarrow> process" where
  "step p =
     (case stack p of
        [] \<Rightarrow>
          (case pending p of
             [] \<Rightarrow> p
           | x # xs \<Rightarrow> invoke x (p\<lparr>pending := xs\<rparr>))
      | (x, pc) # rest \<Rightarrow>
          (case statement x pc (vars p) of
             (g, ws, Some pc') \<Rightarrow>
               p\<lparr>vars := g, written := written p @ ws, stack := (x, pc') # rest\<rparr>
           | (g, ws, None) \<Rightarrow>
               sigreturn x (p\<lparr>vars := g, written := written p @ ws, stack := rest\<rparr>)))"

text \<open>
  What happens to the supervisor from outside, in order: a signal arrives, or the
  handler that runs gets to execute one statement.
\<close>

datatype event = Arrive signal | Step

fun fire :: "event \<Rightarrow> process \<Rightarrow> process" where
  "fire (Arrive x) p = arrive x p"
| "fire Step p = step p"

fun run :: "event list \<Rightarrow> process \<Rightarrow> process" where
  "run [] p = p"
| "run (ev # evs) p = run evs (fire ev p)"

text \<open>
  The program itself goes on only when every handler has returned. \<open>steps_left\<close>
  bounds the statements that the handlers entered and the pending signals still have
  to execute, and \<open>settle\<close> lets them execute.
\<close>

fun pc_weight :: "pc \<Rightarrow> nat" where
  "pc_weight At_test = 3"
| "pc_weight At_write = 2"
| "pc_weight At_assign = 1"

definition steps_left :: "process \<Rightarrow> nat" where
  "steps_left p = sum_list (map (\<lambda>f. pc_weight (snd f)) (stack p)) + 4 * length (pending p)"

definition settle :: "process \<Rightarrow> process" where
  "settle p = run (replicate (steps_left p) Step) p"

definition idle :: "globals \<Rightarrow> process" where
  "idle g = \<lparr>vars = g, written = [], stack = [], pending = []\<rparr>"

text \<open>
  The variables and the writes once the events \<open>evs\<close> have happened and the handlers
  have returned.
\<close>

definition handled :: "event list \<Rightarrow> globals \<Rightarrow> globals \<times> bridge_write list" where
  "handled evs g = (let p = settle (run evs (idle g)) in (vars p, written p))"

text \<open>
  The handlers of one kind that have been entered and have not returned, each given
  by the place of its next statement.
\<close>

definition frames :: "disposition \<Rightarrow> process \<Rightarrow> pc list" where
  "frames c p = map snd (filter (\<lambda>f. installed (fst f) = c) (stack p))"


text \<open>
  The events in which the signals \<open>xs\<close> arrive one by one, each handler executing its
  three statements before the next signal arrives.
\<close>

fun one_by_one :: "signal list \<Rightarrow> event list" where
  "one_by_one [] = []"
| "one_by_one (x # xs) = Arrive x # Step # Step # Step # one_by_one xs"

text \<open>Lines 470-478: the descriptor variable is set to \<open>-1\<close> before the close.\<close>

definition asyncsafe_close :: "globals \<Rightarrow> globals" where
  "asyncsafe_close g = g\<lparr>signalfd1 := -1\<rparr>"

text \<open>Lines 481-489.\<close>

definition DeinitSignals :: "globals \<Rightarrow> globals" where
  "DeinitSignals g = asyncsafe_close g"






subsection \<open>The event loop\<close>

text \<open>
  The calls that \<open>teredo_server_relay\<close> makes, in program order. \<open>Select\<close> carries the
  number of descriptors, the read set handed in and the timeout (\<open>tv_sec\<close>, \<open>tv_usec\<close>);
  the processing calls carry the read set that \<open>select\<close> left.
\<close>

datatype call =
    Server_RegisterReadSet
  | Tunnel_RegisterReadSet
  | Relay_RegisterReadSet
  | Select int "int set" int int
  | Server_ProcessPacket "int set"
  | Relay_Process
  | Tunnel_ReceivePacket "int set"
  | Relay_SendPacket int
  | Relay_ReceivePacket "int set"

text \<open>
  What the collaborators answer during one iteration: the descriptors that the server
  and the relay register and the value they return, the value of \<open>select\<close> and the
  read set it leaves, and the length that the tunnel's \<open>ReceivePacket\<close> returns.
\<close>

record tick =
  server_fds :: "int set"
  server_val :: int
  relay_fds :: "int set"
  relay_val :: int
  select_ret :: int
  select_set :: "int set"
  tunnel_len :: int

text \<open>Lines 129-157: the read set, \<open>maxfd\<close> and the calls made to build them.\<close>

definition register_fds ::
  "tunnel \<Rightarrow> bool \<Rightarrow> bool \<Rightarrow> globals \<Rightarrow> tick \<Rightarrow> int set \<times> int \<times> call list" where
  "register_fds t relay server g e =
     (let rs0 = {signalfd0 g};
          m0 = signalfd0 g;
          (rs1, m1, c1) =
            (if server
             then (rs0 \<union> server_fds e, (if server_val e > m0 then server_val e else m0),
                   [Server_RegisterReadSet])
             else (rs0, m0, []))
      in if relay
         then
           let (v, rs2) = RegisterReadSet rs1 t;
               m2 = (if v > m1 then v else m1);
               m3 = (if relay_val e > m2 then relay_val e else m2)
           in (rs2 \<union> relay_fds e, m3, c1 @ [Tunnel_RegisterReadSet, Relay_RegisterReadSet])
         else (rs1, m1, c1))"

text \<open>Lines 172-197: the calls made once the loop has decided to go on.\<close>

definition dispatch :: "bool \<Rightarrow> bool \<Rightarrow> tick \<Rightarrow> call list" where
  "dispatch relay server e =
     (if server then [Server_ProcessPacket (select_set e)] else [])
     @ (if relay
        then [Relay_Process, Tunnel_ReceivePacket (select_set e)]
             @ (if tunnel_len e > 0 then [Relay_SendPacket (tunnel_len e)] else [])
             @ [Relay_ReceivePacket (select_set e)]
        else [])"

text \<open>
  Lines 127-198, one iteration: whether the loop is left, and the calls made. The test
  of the read end of the bridge is the second disjunct of line 167-168.
\<close>

definition bridge_ready :: "globals \<Rightarrow> tick \<Rightarrow> bool" where
  "bridge_ready g e = (select_ret e \<ge> 1 \<and> signalfd0 g \<in> select_set e)"

definition loop_body :: "tunnel \<Rightarrow> bool \<Rightarrow> bool \<Rightarrow> globals \<Rightarrow> tick \<Rightarrow> bool \<times> call list" where
  "loop_body t relay server g e =
     (let (rs, maxfd, cs) = register_fds t relay server g e;
          sel = Select (maxfd + 1) rs 0 250000
      in if select_ret e < 0 \<or> bridge_ready g e then (True, cs @ [sel])
         else (False, cs @ [sel] @ dispatch relay server e))"

text \<open>
  The loop over the answers of successive iterations. The first component tells
  whether the function has returned; it is \<open>False\<close> when the answers run out while
  the loop is still going.
\<close>

fun teredo_server_relay ::
  "tunnel \<Rightarrow> bool \<Rightarrow> bool \<Rightarrow> globals \<Rightarrow> tick list \<Rightarrow> bool \<times> call list" where
  "teredo_server_relay t relay server g [] = (False, [])"
| "teredo_server_relay t relay server g (e # es) =
     (let (brk, cs) = loop_body t relay server g e
      in if brk then (True, cs)
         else let (r, cs') = teredo_server_relay t relay server g es in (r, cs @ cs'))"

text \<open>Observations on a list of calls.\<close>

fun select_timeouts :: "call list \<Rightarrow> (int \<times> int) list" where
  "select_timeouts [] = []"
| "select_timeouts (Select n rs s us # cs) = (s, us) # select_timeouts cs"
| "select_timeouts (c # cs) = select_timeouts cs"

fun is_server_processing :: "call \<Rightarrow> bool" where
  "is_server_processing (Server_ProcessPacket rs) = True"
| "is_server_processing c = False"

fun is_housekeeping :: "call \<Rightarrow> bool" where
  "is_housekeeping Relay_Process = True"
| "is_housekeeping c = False"

fun is_outbound :: "call \<Rightarrow> bool" where
  "is_outbound (Tunnel_ReceivePacket rs) = True"
| "is_outbound (Relay_SendPacket n) = True"
| "is_outbound c = False"

fun is_inbound :: "call \<Rightarrow> bool" where
  "is_inbound (Relay_ReceivePacket rs) = True"
| "is_inbound c = False"

fun is_tunnel_receive :: "call \<Rightarrow> bool" where
  "is_tunnel_receive (Tunnel_ReceivePacket rs) = True"
| "is_tunnel_receive c = False"

fun is_relay_send :: "call \<Rightarrow> bool" where
  "is_relay_send (Relay_SendPacket n) = True"
| "is_relay_send c = False"

definition is_relay_processing :: "call \<Rightarrow> bool" where
  "is_relay_processing c = (is_housekeeping c \<or> is_outbound c \<or> is_inbound c)"

text \<open>The calls of the server and of the relay path in a list of calls, in order.\<close>

definition processing :: "call list \<Rightarrow> call list" where
  "processing cs = filter (\<lambda>c. is_server_processing c \<or> is_relay_processing c) cs"

text \<open>
  \<open>before P Q cs\<close>: in \<open>cs\<close> no call of kind \<open>Q\<close> is made until a call of kind \<open>P\<close>
  has been made, and no call of kind \<open>P\<close> is made from the first call of kind \<open>Q\<close> on.
\<close>

definition before :: "(call \<Rightarrow> bool) \<Rightarrow> (call \<Rightarrow> bool) \<Rightarrow> call list \<Rightarrow> bool" where
  "before P Q cs =
     (list_all (\<lambda>c. \<not> Q c) (takeWhile (\<lambda>c. \<not> P c) cs)
      \<and> list_all (\<lambda>c. \<not> P c) (dropWhile (\<lambda>c. \<not> Q c) cs))"

subsection \<open>The supervisor\<close>

text \<open>The wait status macros of \<open>sys/wait.h\<close> as the GNU C library defines them.\<close>

definition WTERMSIG :: "int \<Rightarrow> int" where
  "WTERMSIG status = status AND 0x7f"

definition WEXITSTATUS :: "int \<Rightarrow> int" where
  "WEXITSTATUS status = drop_bit 8 (status AND 0xff00)"

definition WIFEXITED :: "int \<Rightarrow> bool" where
  "WIFEXITED status = (WTERMSIG status = 0)"

definition WIFSIGNALED :: "int \<Rightarrow> bool" where
  "WIFSIGNALED status =
     (let v = (status AND 0x7f) + 1;
          sc = (if v < 128 then v else v - 256)
      in drop_bit 1 sc > 0)"

text \<open>
  What happens around the supervisor during one generation: the outcome of \<open>pipe\<close>,
  whether \<open>ParseConf\<close> succeeds, the value of \<open>fork\<close>, the value of \<open>miredo_run\<close>
  (in the child), the events at the signal handlers of the supervisor while it waits
  for the worker, and the status that \<open>waitpid\<close> stores once it succeeds.
\<close>

record generation_env =
  pipe_res :: "(int \<times> int) option"
  conf_ok :: bool
  fork_ret :: int
  run_ret :: int
  delivered :: "event list"
  wait_status :: int

text \<open>Lines 635-665: the value of \<open>retval\<close> after the worker has been reaped.\<close>

definition reap_decision :: "globals \<Rightarrow> int \<Rightarrow> int" where
  "reap_decision g status =
     (if should_exit g \<noteq> 0 then 0
      else if should_reload g \<noteq> 0 then 2
      else if WIFEXITED status then (if WEXITSTATUS status \<noteq> 0 then 1 else 0)
      else if WIFSIGNALED status then 2
      else status)"

text \<open>
  Lines 567-665, one pass through the body of the \<open>do\<close> loop. \<open>Inl c\<close>: the process is
  the child and ends with \<open>exit (c)\<close>. \<open>Inr r\<close>: the body is left with
  \<open>retval = r\<close>. \<open>reaped\<close> is lines 630-633: the signals arrive while the
  supervisor waits, then the bridge is taken down.
\<close>

definition reaped :: "generation_env \<Rightarrow> globals \<Rightarrow> globals \<times> bridge_write list" where
  "reaped e g1 =
     (let (g2, ws) = handled (delivered e) g1 in (DeinitSignals g2, ws))"

definition generation ::
  "generation_env \<Rightarrow> globals \<Rightarrow> (int + int) \<times> globals \<times> bridge_write list" where
  "generation e g =
     (let (ok, g1) = InitSignals (pipe_res e) g
      in if \<not> ok then (Inr 1, g1, [])
         else if \<not> conf_ok e then (Inr 1, g1, [])
         else if fork_ret e = -1 then (Inr 1, g1, [])
         else if fork_ret e = 0 then (Inl (- run_ret e), asyncsafe_close g1, [])
         else
           let (g2, ws) = reaped e g1
           in (Inr (reap_decision g2 (wait_status e)), g2, ws))"

datatype outcome = Returns int | Exits int

text \<open>
  Lines 559-671: the \<open>do ... while (retval == 2)\<close> loop over successive generations,
  and the value \<open>-retval\<close> returned. \<open>None\<close>: the generations given have all ended
  with \<open>retval = 2\<close> and the supervisor is still running.
\<close>

fun miredo :: "generation_env list \<Rightarrow> globals \<Rightarrow> outcome option" where
  "miredo [] g = None"
| "miredo (e # es) g =
     (case generation e g of
        (Inl c, g', ws) \<Rightarrow> Some (Exits c)
      | (Inr retval, g', ws) \<Rightarrow>
          if retval = 2 then miredo es g' else Some (Returns (- retval)))"

subsection \<open>Inputs to evaluate the supervisor and the loop on\<close>

text \<open>The variables of lines 88-95 when the program starts: static storage, all zero.\<close>

definition initial_globals :: globals where
  "initial_globals = \<lparr>should_exit = 0, should_reload = 0, signalfd0 = 0, signalfd1 = 0\<rparr>"

text \<open>
  The variables in the worker, which has closed its copy of the write end (line 619),
  and an iteration in which \<open>select\<close> times out: the server has descriptor 5, the
  relay descriptor 6, and the tunnel has no packet.
\<close>

definition worker_globals :: globals where
  "worker_globals = \<lparr>should_exit = 0, should_reload = 0, signalfd0 = 7, signalfd1 = -1\<rparr>"

definition idle_tick :: tick where
  "idle_tick =
     \<lparr>server_fds = {5}, server_val = 5, relay_fds = {6}, relay_val = 6,
      select_ret = 0, select_set = {}, tunnel_len = -1\<rparr>"

text \<open>
  A generation in which everything succeeds, no signal arrives and the worker (process
  1234) ends with \<open>exit (0)\<close>.
\<close>

definition quiet_generation :: generation_env where
  "quiet_generation =
     \<lparr>pipe_res = Some (7, 8), conf_ok = True, fork_ret = 1234, run_ret = 0,
      delivered = [], wait_status = 0\<rparr>"

section \<open>Properties of the tunnel device\<close>

subsection \<open>Byte order of the frame header\<close>

lemma byte_high_bits: "\<not> bit (b :: byte) (8 + n)"
  using bit_imp_le_length [of b "8 + n"] by auto

lemma store16_load16: "store16 be (load16 be b0 b1) = [b0, b1]"
  unfolding store16_def load16_def
  by (auto intro!: bit_word_eqI simp add: bit_simps byte_high_bits)

lemma store16_zero: "store16 be 0 = [0, 0]"
  by (simp add: store16_def)

text \<open>On either kind of host the ethertype lies in memory as the octets 86, dd.\<close>

lemma store16_L2_PROTO_IPV6: "store16 be (L2_PROTO_IPV6 be) = [0x86, 0xdd]"
  by (simp add: store16_def L2_PROTO_IPV6_def)

lemma load16_L2_PROTO_IPV6: "load16 be 0x86 0xdd = L2_PROTO_IPV6 be"
  by (simp add: load16_def L2_PROTO_IPV6_def)

lemma load16_eq_L2_PROTO_IPV6:
  "load16 be b0 b1 = L2_PROTO_IPV6 be \<longleftrightarrow> b0 = 0x86 \<and> b1 = 0xdd"
proof
  assume "load16 be b0 b1 = L2_PROTO_IPV6 be"
  then have "store16 be (load16 be b0 b1) = store16 be (load16 be 0x86 0xdd)"
    by (simp only: load16_L2_PROTO_IPV6)
  then have "[b0, b1] = [0x86, 0xdd]"
    by (simp only: store16_load16)
  then show "b0 = 0x86 \<and> b1 = 0xdd" by simp
next
  assume "b0 = 0x86 \<and> b1 = 0xdd"
  then show "load16 be b0 b1 = L2_PROTO_IPV6 be" by (simp add: load16_L2_PROTO_IPV6)
qed

lemma ethertype_field:
  assumes "4 \<le> length frame"
  shows "take 2 (drop 2 frame) = [frame ! 2, frame ! 3]"
proof (rule nth_equalityI)
  show "length (take 2 (drop 2 frame)) = length [frame ! 2, frame ! 3]"
    using assms by simp
next
  fix i
  assume "i < length (take 2 (drop 2 frame))"
  then have "i = 0 \<or> i = 1" by auto
  then show "take 2 (drop 2 frame) ! i = [frame ! 2, frame ! 3] ! i"
    using assms by (auto simp add: numeral_3_eq_3 numeral_2_eq_2)
qed

subsection \<open>Receiving\<close>

lemma ReceivePacket_ready:
  assumes "fd t \<noteq> -1" and "fd t \<in> readset" and "read_ret k = Read_data frame"
    and "length frame \<le> length (pbuf t)"
  shows "ReceivePacket readset t k =
           ((if load16 (words_bigendian k) ((frame @ drop (length frame) (pbuf t)) ! 2)
                  ((frame @ drop (length frame) (pbuf t)) ! 3)
                  = L2_PROTO_IPV6 (words_bigendian k) then 0 else -1,
             [Read (fd t) (length (pbuf t))]),
            t\<lparr>pbuf := frame @ drop (length frame) (pbuf t), plen := int (length frame)\<rparr>)"
  using assms by (simp add: ReceivePacket_def Let_def)

text \<open>
  Claim C1, as the code has it. With the descriptor ready and a frame of at least 4
  octets read into the buffer: \<open>ReceivePacket\<close> returns \<open>-1\<close> when the two octets at
  offset 2 are not the ethertype of IPv6 in the byte order of the host, and \<open>0\<close> when
  they are; it makes the one \<open>read\<close> and no other call; in both cases the buffer length
  \<open>plen\<close> is the length of the frame read and the buffer starts with the frame, so that
  the IPv6 payload lies at offset 4.
\<close>

theorem ReceivePacket_amended:
  assumes "fd t \<noteq> -1" and "fd t \<in> readset" and "read_ret k = Read_data frame"
    and "4 \<le> length frame" and "length frame \<le> length (pbuf t)"
  shows "fst (fst (ReceivePacket readset t k))
           = (if take 2 (drop 2 frame)
                 = store16 (words_bigendian k) (L2_PROTO_IPV6 (words_bigendian k))
              then 0 else -1)
         \<and> snd (fst (ReceivePacket readset t k)) = [Read (fd t) (length (pbuf t))]
         \<and> plen (snd (ReceivePacket readset t k)) = int (length frame)
         \<and> take (length frame) (pbuf (snd (ReceivePacket readset t k))) = frame"
proof -
  let ?buf = "frame @ drop (length frame) (pbuf t)"
  have "?buf ! 2 = frame ! 2" and "?buf ! 3 = frame ! 3"
    using assms(4) by (simp_all add: nth_append)
  then show ?thesis
    using assms
    by (simp add: ReceivePacket_ready load16_eq_L2_PROTO_IPV6 ethertype_field
        store16_L2_PROTO_IPV6)
qed

text \<open>
  An IPv4 frame of 5 octets is refused and an IPv6 frame of 5 octets is accepted; the
  buffer length is 5 after either.
\<close>

theorem ReceivePacket_amended_witness:
  "fst (fst (ReceivePacket {3} sample_tunnel
       (sample_kernel\<lparr>read_ret := Read_data [0, 0, 0x08, 0x00, 0x45]\<rparr>))) = -1
   \<and> plen (snd (ReceivePacket {3} sample_tunnel
       (sample_kernel\<lparr>read_ret := Read_data [0, 0, 0x08, 0x00, 0x45]\<rparr>))) = 5
   \<and> fst (fst (ReceivePacket {3} sample_tunnel
       (sample_kernel\<lparr>read_ret := Read_data [0, 0, 0x86, 0xdd, 0x60]\<rparr>))) = 0
   \<and> plen (snd (ReceivePacket {3} sample_tunnel
       (sample_kernel\<lparr>read_ret := Read_data [0, 0, 0x86, 0xdd, 0x60]\<rparr>))) = 5"
  using ReceivePacket_amended [of sample_tunnel "{3}"
      "sample_kernel\<lparr>read_ret := Read_data [0, 0, 0x08, 0x00, 0x45]\<rparr>"
      "[0, 0, 0x08, 0x00, 0x45]"]
    ReceivePacket_amended [of sample_tunnel "{3}"
      "sample_kernel\<lparr>read_ret := Read_data [0, 0, 0x86, 0xdd, 0x60]\<rparr>"
      "[0, 0, 0x86, 0xdd, 0x60]"]
  by (simp add: sample_tunnel_def sample_kernel_def store16_L2_PROTO_IPV6)

text \<open>
  Claim C1 as stated fails. A read of 2 octets, shorter than the header, over a buffer
  that still holds the header of an earlier IPv6 frame returns \<open>0\<close>, not \<open>-1\<close>:
  the protocol field is taken from the buffer without a look at the length. And the
  buffer length is reset only in the sense that it is overwritten: after a refused IPv4
  frame of 4 octets it is 4, the length of the refused frame, not zero.
\<close>

theorem ReceivePacket_short_frame_accepted:
  "fst (fst (ReceivePacket {3} sample_tunnel (sample_kernel\<lparr>read_ret := Read_data [0, 0]\<rparr>))) = 0
   \<and> fst (fst (ReceivePacket {3} sample_tunnel
        (sample_kernel\<lparr>read_ret := Read_data [0, 0, 0x08, 0x00]\<rparr>))) = -1
   \<and> plen (snd (ReceivePacket {3} sample_tunnel
        (sample_kernel\<lparr>read_ret := Read_data [0, 0, 0x08, 0x00]\<rparr>))) = 4"
  by (simp add: ReceivePacket_ready sample_tunnel_def sample_kernel_def load16_eq_L2_PROTO_IPV6)

subsection \<open>Sending\<close>

lemma int_of_size_small: "n < 2 ^ 31 \<Longrightarrow> int_of_size n = int n"
  by (simp add: int_of_size_def Let_def)

lemma int_of_size_frame:
  "length p \<le> 65535 \<Longrightarrow> int_of_size (length p + 4) = int (length p) + 4"
  by (simp add: int_of_size_small)

text \<open>
  On a valid handle and a payload that fits, the second message is the only one that
  can be logged: \<open>(int)len\<close> lies between 4 and 65539 and is never \<open>-1\<close>.
\<close>

lemma SendPacket_valid:
  assumes "fd t \<noteq> -1" and "length packet \<le> 65535"
  shows "SendPacket packet t k =
           (if write_ret k = int (length packet) + 4
            then (0, [Write (fd t) (0 # 0 # 0x86 # 0xdd # packet)])
            else (-1, [Write (fd t) (0 # 0 # 0x86 # 0xdd # packet),
                       Syslog LOG_ERR (Packet_truncated (length packet + 4))]))"
  using assms
  by (simp add: SendPacket_def Let_def int_of_size_frame store16_zero store16_L2_PROTO_IPV6)

lemma SendPacket_never_logs_write_error:
  "Syslog LOG_ERR Cannot_send_packet \<notin> set (snd (SendPacket packet t k))"
proof (cases "fd t \<noteq> -1 \<and> length packet \<le> 65535")
  case True
  then show ?thesis by (simp add: SendPacket_valid)
next
  case False
  then show ?thesis by (auto simp add: SendPacket_def)
qed

text \<open>
  Claim C2. A payload of more than 65535 octets is refused with \<open>-1\<close> and nothing is
  written. On a valid handle, a payload of at most 65535 octets leads to exactly one
  \<open>write\<close>, on the device descriptor, of a frame of \<open>len + 4\<close> octets: two zero
  octets, the ethertype of IPv6 in the byte order of the host, and the payload as it
  was given.
\<close>

theorem SendPacket_frame:
  "(65535 < length packet \<longrightarrow> SendPacket packet t k = (-1, []))
   \<and> (fd t \<noteq> -1 \<and> length packet \<le> 65535 \<longrightarrow>
        writes (snd (SendPacket packet t k))
          = [(fd t, [0, 0] @ store16 (words_bigendian k) (L2_PROTO_IPV6 (words_bigendian k))
                    @ packet)]
        \<and> length ([0, 0] @ store16 (words_bigendian k) (L2_PROTO_IPV6 (words_bigendian k))
                  @ packet) = length packet + 4)"
  by (simp add: SendPacket_valid store16_L2_PROTO_IPV6) (simp add: SendPacket_def)

theorem SendPacket_frame_witness:
  "writes (snd (SendPacket [0x60, 0, 0, 0] sample_tunnel (sample_kernel\<lparr>write_ret := 8\<rparr>)))
     = [(3, [0, 0, 0x86, 0xdd, 0x60, 0, 0, 0])]
   \<and> SendPacket (replicate 65536 0) sample_tunnel sample_kernel = (-1, [])"
  using SendPacket_frame [of "[0x60, 0, 0, 0]" sample_tunnel "sample_kernel\<lparr>write_ret := 8\<rparr>"]
    SendPacket_frame [of "replicate 65536 0" sample_tunnel sample_kernel]
  by (simp add: sample_tunnel_def store16_L2_PROTO_IPV6)

text \<open>
  Claim C9, at a failing \<open>write\<close>. The kernel answers \<open>-1\<close> to the write of a frame of
  5 octets. \<open>SendPacket\<close> returns \<open>-1\<close>, and the message logged is the one for a
  truncated packet, with the length 5 of the whole frame; the message for a failed
  write is not logged.
\<close>

theorem SendPacket_write_error_logged_as_truncation:
  "SendPacket [0x60] sample_tunnel (sample_kernel\<lparr>write_ret := -1\<rparr>)
     = (-1, [Write 3 [0, 0, 0x86, 0xdd, 0x60], Syslog LOG_ERR (Packet_truncated 5)])"
  by (simp add: SendPacket_valid sample_tunnel_def)

subsection \<open>A handle whose open failed\<close>

text \<open>
  Claim C10. On a handle whose descriptor is \<open>-1\<close>, \<open>SetState\<close>, \<open>SetAddress\<close>,
  \<open>SetMTU\<close>, \<open>ReceivePacket\<close> and \<open>SendPacket\<close> return \<open>-1\<close> at once: the list
  of calls is empty (no socket, no ioctl, no read, no write, no log line) and the
  tunnel is unchanged; \<open>RegisterReadSet\<close> returns \<open>-1\<close> and leaves the read set as it
  was.
\<close>

theorem invalid_handle_fails:
  "fd t = -1 \<Longrightarrow>
     SetState up t k = (-1, [])
     \<and> SetAddress addr prefix_len t k = (-1, [])
     \<and> SetMTU mtu t k = (-1, [])
     \<and> ReceivePacket readset t k = ((-1, []), t)
     \<and> SendPacket packet t k = (-1, [])
     \<and> RegisterReadSet readset t = (-1, readset)"
  by (simp add: SetState_def SetAddress_def SetMTU_def ReceivePacket_def
      SendPacket_def RegisterReadSet_def)

theorem invalid_handle_fails_witness:
  "SetState True (sample_tunnel\<lparr>fd := -1\<rparr>) sample_kernel = (-1, [])
   \<and> SetAddress 1 64 (sample_tunnel\<lparr>fd := -1\<rparr>) sample_kernel = (-1, [])
   \<and> SetMTU 1280 (sample_tunnel\<lparr>fd := -1\<rparr>) sample_kernel = (-1, [])
   \<and> ReceivePacket {3} (sample_tunnel\<lparr>fd := -1\<rparr>) sample_kernel
       = ((-1, []), sample_tunnel\<lparr>fd := -1\<rparr>)
   \<and> SendPacket [0x60] (sample_tunnel\<lparr>fd := -1\<rparr>) sample_kernel = (-1, [])
   \<and> RegisterReadSet {7} (sample_tunnel\<lparr>fd := -1\<rparr>) = (-1, {7})"
  using invalid_handle_fails [where t = "sample_tunnel\<lparr>fd := -1\<rparr>" and up = True
      and k = sample_kernel and addr = 1 and prefix_len = 64 and mtu = 1280
      and readset = "{3}" and packet = "[0x60]"]
    invalid_handle_fails [where t = "sample_tunnel\<lparr>fd := -1\<rparr>" and readset = "{7}"]
  by simp

subsection \<open>The MTU\<close>

text \<open>
  Claim C3, as the code has it. On a valid handle: an MTU below 1280 or above 65535 is
  refused with \<open>-1\<close> after one log line and no call to the kernel (no socket, no
  ioctl); an MTU from 1280 to 65535 leads to a control socket and, once the socket is
  there, to the ioctl \<open>SIOCSIFMTU\<close> with that MTU, and the call succeeds exactly when
  both the socket and the ioctl succeed. So success implies \<open>1280 \<le> m \<le> 65535\<close>,
  not the converse.
\<close>

theorem SetMTU_amended:
  "fd t \<noteq> -1 \<Longrightarrow>
     (mtu < 1280 \<longrightarrow> SetMTU mtu t k = (-1, [Syslog LOG_ERR (MTU_too_small mtu)]))
     \<and> (65535 < mtu \<longrightarrow> SetMTU mtu t k = (-1, [Syslog LOG_ERR (MTU_too_big mtu)]))
     \<and> (1280 \<le> mtu \<and> mtu \<le> 65535 \<longrightarrow>
          (fst (SetMTU mtu t k) = 0 \<longleftrightarrow> socket_ret k \<noteq> -1 \<and> ioctl_ret k SIOCSIFMTU = 0)
          \<and> (socket_ret k \<noteq> -1 \<longrightarrow>
                take 2 (snd (SetMTU mtu t k))
                  = [Socket, Ioctl (socket_ret k) SIOCSIFMTU
                               (Ifr_mtu (secure_strncpy (ifname t) IFNAMSIZ) mtu)]))
     \<and> (fst (SetMTU mtu t k) = 0 \<longrightarrow> 1280 \<le> mtu \<and> mtu \<le> 65535)"
  by (simp add: SetMTU_def socket_udp6_def Let_def)

theorem SetMTU_amended_witness:
  "SetMTU 1000 sample_tunnel sample_kernel = (-1, [Syslog LOG_ERR (MTU_too_small 1000)])
   \<and> SetMTU 70000 sample_tunnel sample_kernel = (-1, [Syslog LOG_ERR (MTU_too_big 70000)])
   \<and> fst (SetMTU 1280 sample_tunnel sample_kernel) = 0"
  using SetMTU_amended [of sample_tunnel 1000 sample_kernel]
    SetMTU_amended [of sample_tunnel 70000 sample_kernel]
    SetMTU_amended [of sample_tunnel 1280 sample_kernel]
  by (simp add: sample_tunnel_def sample_kernel_def all_ioctls_def)

text \<open>
  Claim C3 as stated fails: the MTU 1280 is in range, and the call fails when the
  kernel refuses the ioctl.
\<close>

theorem SetMTU_in_range_fails:
  "fst (SetMTU 1280 sample_tunnel (sample_kernel\<lparr>ioctl_ret := all_ioctls (-1)\<rparr>)) = -1"
  by (simp add: SetMTU_def socket_udp6_def Let_def sample_tunnel_def sample_kernel_def
      all_ioctls_def)

subsection \<open>Interface flags\<close>

lemma bit_pow_word16: "m < 16 \<Longrightarrow> bit (2 ^ m :: 16 word) n \<longleftrightarrow> n = m"
  by (auto simp add: bit_exp_iff)

lemma IFF_powers:
  "IFF_UP = 2 ^ 0" "IFF_BROADCAST = 2 ^ 1" "IFF_POINTOPOINT = 2 ^ 4"
  "IFF_RUNNING = 2 ^ 6" "IFF_NOARP = 2 ^ 7" "IFF_MULTICAST = 2 ^ 12"
  by (simp_all add: IFF_UP_def IFF_BROADCAST_def IFF_POINTOPOINT_def IFF_RUNNING_def
      IFF_NOARP_def IFF_MULTICAST_def)

lemma bit_IFF:
  "bit IFF_UP n \<longleftrightarrow> n = 0"
  "bit IFF_BROADCAST n \<longleftrightarrow> n = 1"
  "bit IFF_POINTOPOINT n \<longleftrightarrow> n = 4"
  "bit IFF_RUNNING n \<longleftrightarrow> n = 6"
  "bit IFF_NOARP n \<longleftrightarrow> n = 7"
  "bit IFF_MULTICAST n \<longleftrightarrow> n = 12"
  unfolding IFF_powers by (rule bit_pow_word16, simp)+

lemma wanted_flags_bits:
  "wanted_flags up f AND IFF_POINTOPOINT = IFF_POINTOPOINT"
  "wanted_flags up f AND IFF_NOARP = IFF_NOARP"
  "wanted_flags up f AND IFF_MULTICAST = 0"
  "wanted_flags up f AND IFF_BROADCAST = 0"
  "wanted_flags True f AND IFF_UP = IFF_UP"
  "wanted_flags True f AND IFF_RUNNING = IFF_RUNNING"
  "wanted_flags False f AND IFF_UP = 0"
  "wanted_flags False f AND IFF_RUNNING = f AND IFF_RUNNING"
  unfolding wanted_flags_def Let_def
  by (auto intro!: bit_word_eqI simp add: bit_simps bit_IFF)

lemma SetState_success:
  "fst (SetState up t k) = 0 \<Longrightarrow>
     snd (SetState up t k)
       = [Socket,
          Ioctl (socket_ret k) SIOCGIFFLAGS (Ifr_name (secure_strncpy (ifname t) IFNAMSIZ)),
          Ioctl (socket_ret k) SIOCSIFFLAGS
            (Ifr_flags (secure_strncpy (ifname t) IFNAMSIZ) (wanted_flags up (if_flags k))),
          Close (socket_ret k)]"
  by (simp add: SetState_def socket_udp6_def Let_def split: if_splits)

text \<open>
  Claim C8, as the code has it. When \<open>SetState\<close> succeeds it has made four calls:
  the socket, the ioctl that reads the flags, the ioctl that writes them back, and the
  close. The flags written back have \<open>POINTOPOINT\<close> and \<open>NOARP\<close> set and
  \<open>MULTICAST\<close> and \<open>BROADCAST\<close> cleared; with \<open>up\<close> they have \<open>UP\<close> and
  \<open>RUNNING\<close> set; without \<open>up\<close> they have \<open>UP\<close> cleared and \<open>RUNNING\<close> as the
  kernel reported it.
\<close>

theorem SetState_flags_amended:
  "fst (SetState up t k) = 0 \<Longrightarrow>
     snd (SetState up t k)
       = [Socket,
          Ioctl (socket_ret k) SIOCGIFFLAGS (Ifr_name (secure_strncpy (ifname t) IFNAMSIZ)),
          Ioctl (socket_ret k) SIOCSIFFLAGS
            (Ifr_flags (secure_strncpy (ifname t) IFNAMSIZ) (wanted_flags up (if_flags k))),
          Close (socket_ret k)]
     \<and> wanted_flags up (if_flags k) AND IFF_POINTOPOINT = IFF_POINTOPOINT
     \<and> wanted_flags up (if_flags k) AND IFF_NOARP = IFF_NOARP
     \<and> wanted_flags up (if_flags k) AND IFF_MULTICAST = 0
     \<and> wanted_flags up (if_flags k) AND IFF_BROADCAST = 0
     \<and> (up \<longrightarrow> wanted_flags up (if_flags k) AND IFF_UP = IFF_UP
              \<and> wanted_flags up (if_flags k) AND IFF_RUNNING = IFF_RUNNING)
     \<and> (\<not> up \<longrightarrow> wanted_flags up (if_flags k) AND IFF_UP = 0
              \<and> wanted_flags up (if_flags k) AND IFF_RUNNING = if_flags k AND IFF_RUNNING)"
  by (simp add: SetState_success wanted_flags_bits)

lemma wanted_flags_sample: "wanted_flags False (IFF_UP OR IFF_RUNNING) = 0xD0"
  by (simp add: wanted_flags_def IFF_UP_def IFF_RUNNING_def IFF_POINTOPOINT_def IFF_NOARP_def
      IFF_MULTICAST_def IFF_BROADCAST_def)

lemma wanted_flags_sample_up: "wanted_flags True 0x1002 = 0xD1"
  by (simp add: wanted_flags_def IFF_UP_def IFF_RUNNING_def IFF_POINTOPOINT_def IFF_NOARP_def
      IFF_MULTICAST_def IFF_BROADCAST_def)

theorem SetState_flags_amended_witness:
  "snd (SetState True sample_tunnel (sample_kernel\<lparr>if_flags := 0x1002\<rparr>))
     = [Socket, Ioctl 4 SIOCGIFFLAGS (Ifr_name ''teredo''),
            Ioctl 4 SIOCSIFFLAGS (Ifr_flags ''teredo'' 0xD1), Close 4]
   \<and> snd (SetState False sample_tunnel sample_kernel)
     = [Socket, Ioctl 4 SIOCGIFFLAGS (Ifr_name ''teredo''),
            Ioctl 4 SIOCSIFFLAGS (Ifr_flags ''teredo'' 0xD0), Close 4]"
proof -
  have up: "fst (SetState True sample_tunnel (sample_kernel\<lparr>if_flags := 0x1002\<rparr>)) = 0"
    and down: "fst (SetState False sample_tunnel sample_kernel) = 0"
    by (simp_all add: SetState_def socket_udp6_def Let_def sample_tunnel_def sample_kernel_def
        all_ioctls_def)
  show ?thesis
    using SetState_flags_amended [OF up] SetState_flags_amended [OF down]
    by (simp add: sample_tunnel_def sample_kernel_def wanted_flags_sample
        wanted_flags_sample_up secure_strncpy_def IFNAMSIZ_def)
qed

text \<open>
  Claim C8 as stated fails for \<open>up = false\<close>: on an interface that the kernel reports
  as up and running, the flags written back are \<open>0xD0\<close>, with \<open>RUNNING\<close> still set.
\<close>

theorem SetState_down_keeps_running:
  "SetState False sample_tunnel sample_kernel
     = (0, [Socket, Ioctl 4 SIOCGIFFLAGS (Ifr_name ''teredo''),
            Ioctl 4 SIOCSIFFLAGS (Ifr_flags ''teredo'' 0xD0), Close 4])
   \<and> (0xD0 :: 16 word) AND IFF_RUNNING = IFF_RUNNING"
proof
  show "SetState False sample_tunnel sample_kernel
     = (0, [Socket, Ioctl 4 SIOCGIFFLAGS (Ifr_name ''teredo''),
            Ioctl 4 SIOCSIFFLAGS (Ifr_flags ''teredo'' 0xD0), Close 4])"
    by (simp add: SetState_def socket_udp6_def Let_def sample_tunnel_def sample_kernel_def
        all_ioctls_def wanted_flags_sample secure_strncpy_def IFNAMSIZ_def)
  show "(0xD0 :: 16 word) AND IFF_RUNNING = IFF_RUNNING"
    by (simp add: IFF_RUNNING_def)
qed

section \<open>Properties of the supervisor and the event loop\<close>

subsection \<open>Signals within one generation\<close>




text \<open>
  Whatever has arrived, \<open>settle\<close> ends with every handler returned and no signal
  pending: each statement executed brings \<open>steps_left\<close> down.
\<close>

lemma pc_weight_positive: "0 < pc_weight pc"
  by (cases pc) simp_all

lemma pc_weight_nonzero: "pc_weight pc \<noteq> 0"
  by (cases pc) simp_all

lemma steps_left_zero: "steps_left p = 0 \<Longrightarrow> stack p = [] \<and> pending p = []"
  by (cases "stack p") (auto simp add: steps_left_def pc_weight_nonzero)

lemma statement_advances:
  "statement x pc g = (g', ws, Some pc') \<Longrightarrow> pc_weight pc' < pc_weight pc"
  by (cases pc; cases "installed x")
    (auto simp add: statement_def exit_handler_def reload_handler_def split: if_splits)

lemma steps_left_step: "steps_left (step p) < steps_left p \<or> steps_left p = 0"
proof (cases "stack p")
  case Nil
  then show ?thesis
    by (cases "pending p") (simp_all add: step_def steps_left_def invoke_def)
next
  case (Cons f rest)
  obtain x pc where f: "f = (x, pc)" by (cases f)
  obtain g ws nxt where st: "statement x pc (vars p) = (g, ws, nxt)"
    by (cases "statement x pc (vars p)") auto
  show ?thesis
  proof (cases nxt)
    case None
    have "length (removeAll x (pending p)) < length (pending p)" if "x \<in> set (pending p)"
      using that by (rule length_removeAll_less)
    with Cons f st None pc_weight_positive [of pc] show ?thesis
      by (auto simp add: step_def steps_left_def sigreturn_def invoke_def)
  next
    case (Some pc')
    with Cons f st statement_advances [of x pc "vars p" g ws pc'] show ?thesis
      by (simp add: step_def steps_left_def)
  qed
qed

lemma run_steps_returns:
  "steps_left p \<le> n \<Longrightarrow> steps_left (run (replicate n Step) p) = 0"
proof (induction n arbitrary: p)
  case 0
  then show ?case by simp
next
  case (Suc n)
  have "steps_left (step p) \<le> n"
  proof (cases "steps_left p = 0")
    case True
    with steps_left_zero [of p] have "step p = p" by (simp add: step_def)
    with True show ?thesis by simp
  next
    case False
    with steps_left_step [of p] Suc.prems show ?thesis by simp
  qed
  with Suc.IH [of "step p"] show ?case by simp
qed

lemma settle_returns: "stack (settle p) = [] \<and> pending (settle p) = []"
  using run_steps_returns [of p "steps_left p"] steps_left_zero [of "settle p"]
  by (simp add: settle_def)










lemma frames_sigreturn:
  "frames c (sigreturn x p)
     = (if x \<in> set (pending p) \<and> installed x = c then At_test # frames c p else frames c p)"
  by (simp add: sigreturn_def invoke_def frames_def)

lemma vars_sigreturn: "vars (sigreturn x p) = vars p"
  by (simp add: sigreturn_def invoke_def)

lemma written_sigreturn: "written (sigreturn x p) = written p"
  by (simp add: sigreturn_def invoke_def)

























subsection \<open>Leaving the event loop\<close>

lemma register_fds_calls:
  "snd (snd (register_fds t relay server g e))
     = (if server then [Server_RegisterReadSet] else [])
       @ (if relay then [Tunnel_RegisterReadSet, Relay_RegisterReadSet] else [])"
  by (simp add: register_fds_def Let_def split_beta)

lemma loop_body_calls:
  "snd (loop_body t relay server g e)
     = snd (snd (register_fds t relay server g e))
       @ [Select (fst (snd (register_fds t relay server g e)) + 1)
            (fst (register_fds t relay server g e)) 0 250000]
       @ (if select_ret e < 0 \<or> bridge_ready g e then [] else dispatch relay server e)"
  by (simp add: loop_body_def Let_def split_beta)

lemma loop_body_break:
  "fst (loop_body t relay server g e) \<longleftrightarrow> select_ret e < 0 \<or> bridge_ready g e"
  by (simp add: loop_body_def Let_def split_beta)

lemma select_timeouts_append:
  "select_timeouts (cs @ cs') = select_timeouts cs @ select_timeouts cs'"
  by (induction cs rule: select_timeouts.induct) simp_all

lemma select_timeouts_dispatch: "select_timeouts (dispatch relay server e) = []"
  by (simp add: dispatch_def)

lemma select_timeouts_loop_body:
  "select_timeouts (snd (loop_body t relay server g e)) = [(0, 250000)]"
  by (simp add: loop_body_calls register_fds_calls select_timeouts_append
      select_timeouts_dispatch)

lemma teredo_server_relay_returns:
  "fst (teredo_server_relay t relay server g es)
     \<longleftrightarrow> (\<exists>e \<in> set es. select_ret e < 0 \<or> bridge_ready g e)"
proof (induction es)
  case Nil
  then show ?case by simp
next
  case (Cons e es)
  then show ?case
    using loop_body_break [of t relay server g e]
    by (auto simp add: split_beta)
qed

lemma teredo_server_relay_timeouts:
  "set (select_timeouts (snd (teredo_server_relay t relay server g es))) \<subseteq> {(0, 250000)}"
proof (induction es)
  case Nil
  then show ?case by simp
next
  case (Cons e es)
  then show ?case
    using select_timeouts_loop_body [of t relay server g e]
    by (simp add: split_beta select_timeouts_append)
qed

text \<open>
  Claim C5, as the code has it. Every iteration makes one call to \<open>select\<close>, with a
  timeout of 0 s and 250000 \<mu>s. The iteration leaves the loop exactly when
  \<open>select\<close> returns a negative value or reports at least one ready descriptor with
  the read end of the bridge among them; nothing after that test leaves the loop. So
  the function returns within a run of iterations exactly when one of them meets that
  condition, and every \<open>select\<close> of the run has the timeout above.
\<close>

theorem loop_exit_amended:
  "(fst (loop_body t relay server g e) \<longleftrightarrow> select_ret e < 0 \<or> bridge_ready g e)
   \<and> select_timeouts (snd (loop_body t relay server g e)) = [(0, 250000)]
   \<and> (fst (teredo_server_relay t relay server g es)
        \<longleftrightarrow> (\<exists>e \<in> set es. select_ret e < 0 \<or> bridge_ready g e))
   \<and> set (select_timeouts (snd (teredo_server_relay t relay server g es))) \<subseteq> {(0, 250000)}"
  by (simp only: loop_body_break select_timeouts_loop_body teredo_server_relay_returns
      teredo_server_relay_timeouts simp_thms)

theorem loop_exit_amended_witness:
  "teredo_server_relay sample_tunnel True True worker_globals
      [idle_tick, idle_tick\<lparr>select_ret := 1, select_set := {7}\<rparr>, idle_tick]
   = (True,
      [Server_RegisterReadSet, Tunnel_RegisterReadSet, Relay_RegisterReadSet,
       Select 8 {3, 5, 6, 7} 0 250000,
       Server_ProcessPacket {}, Relay_Process, Tunnel_ReceivePacket {}, Relay_ReceivePacket {},
       Server_RegisterReadSet, Tunnel_RegisterReadSet, Relay_RegisterReadSet,
       Select 8 {3, 5, 6, 7} 0 250000])"
  using loop_exit_amended [of sample_tunnel True True worker_globals
      "idle_tick\<lparr>select_ret := 1, select_set := {7}\<rparr>"
      "[idle_tick, idle_tick\<lparr>select_ret := 1, select_set := {7}\<rparr>, idle_tick]"]
  by (auto simp add: loop_body_def register_fds_def RegisterReadSet_def dispatch_def
      bridge_ready_def idle_tick_def worker_globals_def sample_tunnel_def Let_def)

text \<open>
  Claim C5 as stated fails: when \<open>select\<close> fails and leaves the read set as it was
  handed in, the bridge has not been reported ready and the loop is left all the same.
\<close>

theorem loop_exit_on_select_error:
  "fst (teredo_server_relay sample_tunnel True True worker_globals
         [idle_tick\<lparr>select_ret := -1, select_set := {3, 5, 6, 7}\<rparr>])
   \<and> \<not> bridge_ready worker_globals (idle_tick\<lparr>select_ret := -1, select_set := {3, 5, 6, 7}\<rparr>)"
  by (simp add: loop_body_break bridge_ready_def idle_tick_def split_beta)

subsection \<open>Order of the calls within one iteration\<close>

lemma dispatch_both:
  "dispatch True True e
     = [Server_ProcessPacket (select_set e), Relay_Process, Tunnel_ReceivePacket (select_set e)]
       @ (if tunnel_len e > 0 then [Relay_SendPacket (tunnel_len e)] else [])
       @ [Relay_ReceivePacket (select_set e)]"
  by (simp add: dispatch_def)

lemma before_loop_body:
  "before P Q (snd (loop_body t relay server g e))
     \<longleftrightarrow> before P Q
          ((if server then [Server_RegisterReadSet] else [])
           @ (if relay then [Tunnel_RegisterReadSet, Relay_RegisterReadSet] else [])
           @ [Select (fst (snd (register_fds t relay server g e)) + 1)
                (fst (register_fds t relay server g e)) 0 250000]
           @ (if select_ret e < 0 \<or> bridge_ready g e then [] else dispatch relay server e))"
  by (simp add: loop_body_calls register_fds_calls)

lemma processing_append: "processing (cs @ cs') = processing cs @ processing cs'"
  by (simp add: processing_def)

lemma processing_dispatch: "processing (dispatch relay server e) = dispatch relay server e"
  by (simp add: processing_def dispatch_def is_relay_processing_def)

lemma processing_registration:
  "processing [] = []"
  "processing (Server_RegisterReadSet # cs) = processing cs"
  "processing (Tunnel_RegisterReadSet # cs) = processing cs"
  "processing (Relay_RegisterReadSet # cs) = processing cs"
  "processing (Select n rs sec usec # cs) = processing cs"
  by (simp_all add: processing_def is_relay_processing_def)

lemma processing_loop_body:
  "processing (snd (loop_body t relay server g e))
     = (if select_ret e < 0 \<or> bridge_ready g e then [] else dispatch relay server e)"
  by (simp add: loop_body_calls register_fds_calls processing_append processing_dispatch
      processing_registration)

text \<open>
  Claim C6, as the code has it. In an iteration in which the bridge is not ready and
  \<open>select\<close> has not failed, the calls to the server and to the relay path are exactly
  these, in this order: the server's \<open>ProcessPacket\<close> when a server exists; then,
  when a relay exists, the housekeeping \<open>Process\<close>, the tunnel's \<open>ReceivePacket\<close>,
  the relay's \<open>SendPacket\<close> when the tunnel returned a positive length, and the
  relay's \<open>ReceivePacket\<close>. When \<open>select\<close> has failed none of them is made. So in
  every iteration the server comes before the relay path, the housekeeping before the
  outbound calls, the tunnel's \<open>ReceivePacket\<close> before the relay's \<open>SendPacket\<close>, and
  the outbound calls before the inbound one.
\<close>

theorem tick_order_amended:
  "\<not> bridge_ready g e \<Longrightarrow>
     processing (snd (loop_body t relay server g e))
       = (if select_ret e < 0 then []
          else (if server then [Server_ProcessPacket (select_set e)] else [])
               @ (if relay
                  then [Relay_Process, Tunnel_ReceivePacket (select_set e)]
                       @ (if tunnel_len e > 0 then [Relay_SendPacket (tunnel_len e)] else [])
                       @ [Relay_ReceivePacket (select_set e)]
                  else []))
     \<and> (server \<longrightarrow>
          before is_server_processing is_relay_processing (snd (loop_body t relay server g e)))
     \<and> before is_housekeeping is_outbound (snd (loop_body t relay server g e))
     \<and> before is_tunnel_receive is_relay_send (snd (loop_body t relay server g e))
     \<and> before is_outbound is_inbound (snd (loop_body t relay server g e))"
  unfolding before_loop_body processing_loop_body
  by (simp add: before_def dispatch_def is_relay_processing_def)

theorem tick_order_amended_witness:
  "processing (snd (loop_body sample_tunnel True True worker_globals
         (idle_tick\<lparr>select_ret := 1, select_set := {3}, tunnel_len := 40\<rparr>)))
     = [Server_ProcessPacket {3}, Relay_Process, Tunnel_ReceivePacket {3},
        Relay_SendPacket 40, Relay_ReceivePacket {3}]
   \<and> processing (snd (loop_body sample_tunnel True False worker_globals idle_tick))
     = [Relay_Process, Tunnel_ReceivePacket {}, Relay_ReceivePacket {}]
   \<and> before is_server_processing is_relay_processing
        (snd (loop_body sample_tunnel True True worker_globals
           (idle_tick\<lparr>select_ret := 1, select_set := {3}, tunnel_len := 40\<rparr>)))"
proof -
  have ready: "\<not> bridge_ready worker_globals
      (idle_tick\<lparr>select_ret := 1, select_set := {3}, tunnel_len := 40\<rparr>)"
    "\<not> bridge_ready worker_globals idle_tick"
    by (simp_all add: bridge_ready_def worker_globals_def idle_tick_def)
  show ?thesis
    using tick_order_amended [OF ready(1), of sample_tunnel True True]
      tick_order_amended [OF ready(2), of sample_tunnel True False]
    by (simp add: idle_tick_def)
qed

text \<open>
  Claim C6 as stated fails: in an iteration in which \<open>select\<close> fails the bridge is not
  ready, a server and a relay exist, and the loop is left after \<open>select\<close> without a
  call to either.
\<close>

theorem no_processing_on_select_error:
  "\<not> bridge_ready worker_globals (idle_tick\<lparr>select_ret := -1, select_set := {3, 5, 6, 7}\<rparr>)
   \<and> loop_body sample_tunnel True True worker_globals
        (idle_tick\<lparr>select_ret := -1, select_set := {3, 5, 6, 7}\<rparr>)
      = (True, [Server_RegisterReadSet, Tunnel_RegisterReadSet, Relay_RegisterReadSet,
                Select 8 {3, 5, 6, 7} 0 250000])"
  by (auto simp add: loop_body_def register_fds_def RegisterReadSet_def bridge_ready_def
      idle_tick_def worker_globals_def sample_tunnel_def Let_def)

subsection \<open>The decision of the supervisor\<close>

lemma minus2_signaled: "WIFSIGNALED (-2)"
  by (simp add: WIFSIGNALED_def Let_def)

lemma reap_decision_not_minus2: "reap_decision g status \<noteq> -2"
  using minus2_signaled by (auto simp add: reap_decision_def)

lemma generation_retval:
  "fst (generation e g) = Inr r \<Longrightarrow> r \<noteq> -2"
  using reap_decision_not_minus2
  by (auto simp add: generation_def Let_def split_beta split: if_splits)

lemma miredo_never_two:
  "miredo es g \<noteq> Some (Returns 2) \<and> miredo es g \<noteq> Some (Returns (-2))"
proof (induction es arbitrary: g)
  case Nil
  then show ?case by simp
next
  case (Cons e es)
  obtain x g' ws where gen: "generation e g = (x, g', ws)"
    by (cases "generation e g") auto
  show ?case
  proof (cases x)
    case (Inl c)
    with gen show ?thesis by simp
  next
    case (Inr r)
    with gen have "r \<noteq> -2" using generation_retval [of e g r] by simp
    with gen Inr Cons.IH [of g'] show ?thesis by auto
  qed
qed

lemma generation_parent:
  assumes "pipe_res e = Some p" and "conf_ok e" and "fork_ret e \<noteq> -1" and "fork_ret e \<noteq> 0"
  shows "generation e g
           = (Inr (reap_decision (fst (reaped e (snd (InitSignals (pipe_res e) g))))
                     (wait_status e)),
              reaped e (snd (InitSignals (pipe_res e) g)))"
  using assms by (cases p) (simp add: generation_def InitSignals_def split_beta)

text \<open>
  Claim C4. In a generation that reaches the parent's branch after \<open>fork\<close>, with
  \<open>g'\<close> the variables once the worker has been reaped: when \<open>should_exit\<close> is
  non-zero \<open>miredo\<close> returns 0; else when \<open>should_reload\<close> is non-zero it goes on
  with the next generation; else when the worker exited it returns \<open>-1\<close> for a
  non-zero exit code and 0 for the exit code 0; else when the worker was killed by a
  signal it goes on with the next generation. Whatever the generations, \<open>miredo\<close>
  never returns the reload value, neither as 2 nor negated as \<open>-2\<close>.
\<close>

theorem supervisor_decision:
  "pipe_res e = Some p \<and> conf_ok e \<and> fork_ret e \<noteq> -1 \<and> fork_ret e \<noteq> 0 \<longrightarrow>
     (let g' = fst (reaped e (snd (InitSignals (pipe_res e) g)))
      in (should_exit g' \<noteq> 0 \<longrightarrow> miredo (e # es) g = Some (Returns 0))
         \<and> (should_exit g' = 0 \<and> should_reload g' \<noteq> 0 \<longrightarrow> miredo (e # es) g = miredo es g')
         \<and> (should_exit g' = 0 \<and> should_reload g' = 0 \<and> WIFEXITED (wait_status e) \<longrightarrow>
              miredo (e # es) g
                = Some (Returns (if WEXITSTATUS (wait_status e) \<noteq> 0 then -1 else 0)))
         \<and> (should_exit g' = 0 \<and> should_reload g' = 0 \<and> \<not> WIFEXITED (wait_status e)
              \<and> WIFSIGNALED (wait_status e) \<longrightarrow> miredo (e # es) g = miredo es g'))
   \<and> miredo es g \<noteq> Some (Returns 2) \<and> miredo es g \<noteq> Some (Returns (-2))"
proof -
  have "miredo (e # es) g
          = (let g' = fst (reaped e (snd (InitSignals (pipe_res e) g)));
                 r = reap_decision g' (wait_status e)
             in if r = 2 then miredo es g' else Some (Returns (- r)))"
    if "pipe_res e = Some p" "conf_ok e" "fork_ret e \<noteq> -1" "fork_ret e \<noteq> 0"
    using generation_parent [OF that, of g] by (simp add: Let_def split_beta)
  then show ?thesis
    using miredo_never_two [of es g]
    by (simp add: Let_def reap_decision_def)
qed

theorem supervisor_decision_witness:
  "miredo [quiet_generation\<lparr>delivered := one_by_one [SIGHUP]\<rparr>,
           quiet_generation\<lparr>wait_status := 11\<rparr>,
           quiet_generation\<lparr>delivered := one_by_one [SIGHUP, SIGTERM]\<rparr>] initial_globals
     = Some (Returns 0)
   \<and> miredo [quiet_generation\<lparr>wait_status := 0x100\<rparr>] initial_globals = Some (Returns (-1))
   \<and> miredo [quiet_generation\<lparr>delivered := one_by_one [SIGHUP]\<rparr>] initial_globals = None"
proof -
  note machine = handled_def settle_def steps_left_def idle_def arrive_def blocked_def
    invoke_def step_def statement_def sigreturn_def exit_handler_def reload_handler_def
  let ?g1 = "\<lparr>should_exit = 0, should_reload = 1, signalfd0 = 7, signalfd1 = -1\<rparr>"
  let ?g2 = "\<lparr>should_exit = 0, should_reload = 0, signalfd0 = 7, signalfd1 = -1\<rparr>"
  have r1: "fst (reaped (quiet_generation\<lparr>delivered := one_by_one [SIGHUP]\<rparr>)
              (snd (InitSignals (Some (7, 8)) g))) = ?g1" for g
    by (simp add: reaped_def InitSignals_def DeinitSignals_def asyncsafe_close_def
        quiet_generation_def machine)
  have r2: "fst (reaped (quiet_generation\<lparr>wait_status := w\<rparr>)
              (snd (InitSignals (Some (7, 8)) g))) = ?g2" for g w
    by (simp add: reaped_def InitSignals_def DeinitSignals_def asyncsafe_close_def
        quiet_generation_def machine)
  have r3: "fst (reaped (quiet_generation\<lparr>delivered := one_by_one [SIGHUP, SIGTERM]\<rparr>)
              (snd (InitSignals (Some (7, 8)) g)))
            = \<lparr>should_exit = 15, should_reload = 1, signalfd0 = 7, signalfd1 = -1\<rparr>" for g
    by (simp add: reaped_def InitSignals_def DeinitSignals_def asyncsafe_close_def
        quiet_generation_def machine)
  have s11: "\<not> WIFEXITED 11" "WIFSIGNALED 11"
    by (simp_all add: WIFEXITED_def WTERMSIG_def WIFSIGNALED_def Let_def)
  have s256: "WIFEXITED 0x100" "WEXITSTATUS 0x100 = 1"
    by (simp_all add: WIFEXITED_def WTERMSIG_def WEXITSTATUS_def)
  have a: "miredo [quiet_generation\<lparr>delivered := one_by_one [SIGHUP, SIGTERM]\<rparr>] ?g2 = Some (Returns 0)"
    using supervisor_decision [of "quiet_generation\<lparr>delivered := one_by_one [SIGHUP, SIGTERM]\<rparr>"
        "(7, 8)" ?g2 "[]"]
    by (simp add: r3 Let_def del: one_by_one.simps) (simp add: quiet_generation_def)
  have b: "miredo [quiet_generation\<lparr>wait_status := 11\<rparr>,
                   quiet_generation\<lparr>delivered := one_by_one [SIGHUP, SIGTERM]\<rparr>] ?g1 = Some (Returns 0)"
    using supervisor_decision [of "quiet_generation\<lparr>wait_status := 11\<rparr>" "(7, 8)" ?g1
        "[quiet_generation\<lparr>delivered := one_by_one [SIGHUP, SIGTERM]\<rparr>]"] a
    by (simp add: r2 Let_def s11 del: miredo.simps one_by_one.simps) (simp add: quiet_generation_def)
  have c: "miredo [quiet_generation\<lparr>delivered := one_by_one [SIGHUP]\<rparr>,
           quiet_generation\<lparr>wait_status := 11\<rparr>,
           quiet_generation\<lparr>delivered := one_by_one [SIGHUP, SIGTERM]\<rparr>] initial_globals
     = Some (Returns 0)"
    using supervisor_decision [of "quiet_generation\<lparr>delivered := one_by_one [SIGHUP]\<rparr>" "(7, 8)"
        initial_globals "[quiet_generation\<lparr>wait_status := 11\<rparr>,
           quiet_generation\<lparr>delivered := one_by_one [SIGHUP, SIGTERM]\<rparr>]"] b
    by (simp add: r1 Let_def del: miredo.simps one_by_one.simps) (simp add: quiet_generation_def)
  have d: "miredo [quiet_generation\<lparr>wait_status := 0x100\<rparr>] initial_globals
             = Some (Returns (-1))"
    using supervisor_decision [of "quiet_generation\<lparr>wait_status := 0x100\<rparr>" "(7, 8)"
        initial_globals "[]"]
    by (simp add: r2 Let_def s256 del: miredo.simps one_by_one.simps) (simp add: quiet_generation_def)
  have e: "miredo [quiet_generation\<lparr>delivered := one_by_one [SIGHUP]\<rparr>] initial_globals = None"
    using supervisor_decision [of "quiet_generation\<lparr>delivered := one_by_one [SIGHUP]\<rparr>" "(7, 8)"
        initial_globals "[]"]
    by (simp add: r1 Let_def del: miredo.simps one_by_one.simps) (simp add: quiet_generation_def)
  from c d e show ?thesis by simp
qed

end
